theory Spec2Isabelle
  imports Main "HOL-Library.Sublist"
begin

section \<open>Go values, errors and panics\<close>

text \<open>
  A shallow embedding of package \<open>restapi\<close>. Go byte slices and Go strings are both byte
  sequences and are modelled as \<open>string\<close>. Go's \<open>int\<close> is modelled as \<open>int\<close>; no
  operation of the package does arithmetic on it, so its width plays no role. A pointer
  that may be nil is an \<open>option\<close>. A \<open>time.Time\<close> is an \<open>int\<close> whose value \<open>0\<close> stands
  for the zero \<open>Time\<close>. Where two structs of the package share a field name, the field
  is written qualified by its struct (\<open>Error.statusCode\<close>, \<open>Result.statusCode\<close>).
\<close>

type_synonym bytes = string
type_synonym time = int

text \<open>\<open>net/url.URL\<close> and \<open>net/http.Request\<close>, restricted to the fields the package reads.\<close>

record url =
  Scheme :: string
  Host :: string
  Path :: string
  RawQuery :: string

record http_Request =
  Header :: "string \<rightharpoonup> string list"
  URL :: "url option"

text \<open>
  Go error values: \<open>errors.New\<close>, \<open>fmt.Errorf\<close> with \<open>%w\<close> verbs (the formatted text and the
  wrapped errors) and \<open>errors.Join\<close>. An error is identified by its structure.
\<close>

datatype goerror =
    ErrorsNew string
  | Errorf string "goerror list"
  | Join "goerror list"

text \<open>\<open>strings.Join\<close>.\<close>

fun strings_Join :: "string list \<Rightarrow> string \<Rightarrow> string" where
  "strings_Join [] sep = []"
| "strings_Join [s] sep = s"
| "strings_Join (s # t # ss) sep = s @ sep @ strings_Join (t # ss) sep"

definition newline :: string where
  "newline = [CHR 0x0A]"

text \<open>The \<open>Error()\<close> method of an error value.\<close>

fun errText :: "goerror \<Rightarrow> string" where
  "errText (ErrorsNew s) = s"
| "errText (Errorf s ws) = s"
| "errText (Join es) = strings_Join (map errText es) newline"

text \<open>\<open>errors.Is\<close>: the error itself or any error it wraps.\<close>

fun errors_Is :: "goerror \<Rightarrow> goerror \<Rightarrow> bool" where
  "errors_Is (ErrorsNew s) t = (ErrorsNew s = t)"
| "errors_Is (Errorf s ws) t = (Errorf s ws = t \<or> (\<exists>w \<in> set ws. errors_Is w t))"
| "errors_Is (Join es) t = (Join es = t \<or> (\<exists>w \<in> set es. errors_Is w t))"

text \<open>What a panic carries: an error value, or one of the runtime's own faults.\<close>

datatype fault =
    Panic goerror
  | NilDereference
  | TypeAssertionFailed

text \<open>
  The dynamic values an \<open>any\<close> can hold, by dynamic type: untyped nil, \<open>int\<close>, \<open>string\<close>,
  an \<open>error\<close>, \<open>[]byte\<close>, \<open>*http.Request\<close>, \<open>url.URL\<close>, \<open>*url.URL\<close>, \<open>map[string]any\<close>,
  and a value of any other type (\<open>AOther\<close>).
\<close>

datatype 'v any =
    ANil
  | AInt int
  | AStr string
  | AErr goerror
  | ABytes bytes
  | ARequest "http_Request option"
  | AURL url
  | AURLPtr "url option"
  | AMap "string \<Rightarrow> 'v any option"
  | AOther 'v

subsection \<open>errors.go\<close>

definition ErrInvalidAcceptHeader :: goerror where
  "ErrInvalidAcceptHeader = ErrorsNew ''no formatter for content type''"

definition ErrInvalidArgument :: goerror where
  "ErrInvalidArgument = ErrorsNew ''invalid argument''"


definition ErrInvalidStatusCode :: goerror where
  "ErrInvalidStatusCode = ErrorsNew ''invalid statuscode''"

definition ErrMarshalResultFailed :: goerror where
  "ErrMarshalResultFailed = ErrorsNew ''error marshalling response''"

subsection \<open>coalesce.go\<close>

text \<open>
  \<open>coalesce\<close> returns the first value that differs from the zero value of its type; the
  zero value is passed explicitly.
\<close>

primrec coalesce :: "'a \<Rightarrow> 'a list \<Rightarrow> 'a" where
  "coalesce z [] = z"
| "coalesce z (v # vs) = (if v \<noteq> z then v else coalesce z vs)"

definition ifNil :: "'a option \<Rightarrow> 'a \<Rightarrow> 'a" where
  "ifNil ptr val = (case ptr of Some v \<Rightarrow> v | None \<Rightarrow> val)"

definition ifNotNil :: "'a \<Rightarrow> 'a option \<Rightarrow> 'a" where
  "ifNotNil z ptr = (case ptr of Some v \<Rightarrow> v | None \<Rightarrow> z)"

subsection \<open>Formatting and the standard library's status texts\<close>

text \<open>\<open>fmt.Sprintf("%d", n)\<close>.\<close>

definition digit :: "nat \<Rightarrow> char" where
  "digit d =
     (if d = 0 then CHR ''0'' else if d = 1 then CHR ''1'' else if d = 2 then CHR ''2''
      else if d = 3 then CHR ''3'' else if d = 4 then CHR ''4'' else if d = 5 then CHR ''5''
      else if d = 6 then CHR ''6'' else if d = 7 then CHR ''7'' else if d = 8 then CHR ''8''
      else CHR ''9'')"

fun show_nat :: "nat \<Rightarrow> string" where
  "show_nat n = (if n < 10 then [digit n] else show_nat (n div 10) @ [digit (n mod 10)])"

definition show_int :: "int \<Rightarrow> string" where
  "show_int i = (if i < 0 then CHR ''-'' # show_nat (nat (- i)) else show_nat (nat i))"

text \<open>\<open>net/http.StatusText\<close>: the standard library's table; an unknown code gives the empty string.\<close>

definition statusTexts :: "(int \<times> string) list" where
  "statusTexts =
    [(100, ''Continue''), (101, ''Switching Protocols''), (102, ''Processing''),
     (103, ''Early Hints''),
     (200, ''OK''), (201, ''Created''), (202, ''Accepted''),
     (203, ''Non-Authoritative Information''), (204, ''No Content''),
     (205, ''Reset Content''), (206, ''Partial Content''), (207, ''Multi-Status''),
     (208, ''Already Reported''), (226, ''IM Used''),
     (300, ''Multiple Choices''), (301, ''Moved Permanently''), (302, ''Found''),
     (303, ''See Other''), (304, ''Not Modified''), (305, ''Use Proxy''),
     (307, ''Temporary Redirect''), (308, ''Permanent Redirect''),
     (400, ''Bad Request''), (401, ''Unauthorized''), (402, ''Payment Required''),
     (403, ''Forbidden''), (404, ''Not Found''), (405, ''Method Not Allowed''),
     (406, ''Not Acceptable''), (407, ''Proxy Authentication Required''),
     (408, ''Request Timeout''), (409, ''Conflict''), (410, ''Gone''),
     (411, ''Length Required''), (412, ''Precondition Failed''),
     (413, ''Request Entity Too Large''), (414, ''Request URI Too Long''),
     (415, ''Unsupported Media Type''), (416, ''Requested Range Not Satisfiable''),
     (417, ''Expectation Failed''), (418, ''I'' @ [CHR 0x27] @ ''m a teapot''),
     (421, ''Misdirected Request''), (422, ''Unprocessable Entity''), (423, ''Locked''),
     (424, ''Failed Dependency''), (425, ''Too Early''), (426, ''Upgrade Required''),
     (428, ''Precondition Required''), (429, ''Too Many Requests''),
     (431, ''Request Header Fields Too Large''),
     (451, ''Unavailable For Legal Reasons''),
     (500, ''Internal Server Error''), (501, ''Not Implemented''), (502, ''Bad Gateway''),
     (503, ''Service Unavailable''), (504, ''Gateway Timeout''),
     (505, ''HTTP Version Not Supported''), (506, ''Variant Also Negotiates''),
     (507, ''Insufficient Storage''), (508, ''Loop Detected''), (510, ''Not Extended''),
     (511, ''Network Authentication Required'')]"

definition StatusText :: "int \<Rightarrow> string" where
  "StatusText code = (case map_of statusTexts code of Some s \<Rightarrow> s | None \<Rightarrow> [])"

section \<open>The package's structs\<close>

text \<open>\<open>headers\<close> (headers.go): a \<open>map[string]any\<close> that may be nil.\<close>

type_synonym 'v headers = "(string \<rightharpoonup> 'v any) option"

text \<open>\<open>Response\<close> (response.go).\<close>

record 'v Response =
  StatusCode :: int
  ContentType :: string
  Content :: bytes
  headers :: "'v headers"

text \<open>\<open>errorResponse\<close> (projectError.go), the default projection of an \<open>Error\<close>.\<close>

record 'v errorResponse =
  XMLName :: string
  Status :: int
  Error :: string
  Message :: string
  Path :: string
  Query :: string
  Timestamp :: time
  Help :: string
  Additional :: "(string \<rightharpoonup> 'v any) option"

text \<open>
  What a marshalling function is applied to: a dynamic value, or the package's own
  \<open>errorResponse\<close> struct.
\<close>

datatype 'v marshalled =
    MAny "'v any"
  | MErrorResponse "'v errorResponse"

text \<open>
  \<open>marshalFunc\<close> (marshalling.go): \<open>func(any) ([]byte, error)\<close>. A non-nil error is \<open>Inl\<close>,
  the bytes of a successful call are \<open>Inr\<close>.
\<close>

type_synonym 'v marshalFunc = "'v marshalled \<Rightarrow> goerror + bytes"

text \<open>\<open>Request\<close>: the inbound request, the negotiated content type and its marshaller.\<close>

record 'v Request =
  Request :: "http_Request option"
  Accept :: string
  MarshalContent :: "'v marshalFunc"

text \<open>\<open>Result\<close>.\<close>

record 'v Result =
  content :: "'v any"
  contentType :: "string option"
  headers :: "'v headers"
  statusCode :: int

text \<open>\<open>Error\<close>; its field \<open>help\<close> is written \<open>help'\<close>.\<close>

record 'v Error =
  err :: "goerror option"
  help' :: "string option"
  message :: "string option"
  request :: "http_Request option"
  statusCode :: int
  timeStamp :: time
  properties :: "(string \<rightharpoonup> 'v any) option"
  headers :: "'v headers"

text \<open>\<open>ErrorInfo\<close> (errorInfo.go) and \<open>InternalError\<close> (logError.go).\<close>

record 'v ErrorInfo =
  StatusCode :: int
  Err :: "goerror option"
  Help :: string
  Message :: string
  Request :: "http_Request option"
  Properties :: "(string \<rightharpoonup> 'v any) option"
  TimeStamp :: time

record InternalError =
  Err :: "goerror option"
  Help :: string
  Message :: string
  Request :: "http_Request option"
  ContentType :: string

text \<open>\<open>Problem\<close> (problem.go).\<close>

record 'v Problem =
  Type :: "url option"
  Status :: int
  Instance :: "url option"
  Detail :: string
  Title :: string
  props :: "(string \<rightharpoonup> 'v any) option"

section \<open>Effects and the environment\<close>

text \<open>
  The package reaches the outside through function variables (\<open>ProjectError\<close>, \<open>LogError\<close>,
  \<open>nowUTC\<close>), through the marshalling function of the \<open>Request\<close> and through the
  \<open>http.ResponseWriter\<close>. Every function of the model returns the calls it made on
  them, in order.
\<close>

datatype 'v call =
    ProjectErrorCall "'v ErrorInfo"
  | MarshalContentCall "'v marshalled"
  | LogErrorCall InternalError
  | HeaderAddCall string string
  | HeaderAssignCall string "string list"
  | WriteHeaderCall int
  | WriteCall bytes

text \<open>
  What the model takes from its surroundings: the reading of the clock (\<open>nowUTC\<close>), the
  projection function (\<open>ProjectError\<close>, which may panic), \<open>fmt\<close>'s rendering of a dynamic
  value and of a \<open>*Problem\<close> under \<open>%v\<close>, \<open>url.URL.String\<close>, and the order in which the
  runtime's \<open>range\<close> visits the keys of a map.
\<close>

record 'v env =
  nowUTC :: time
  ProjectError :: "'v ErrorInfo \<Rightarrow> fault + 'v marshalled"
  Sprint :: "'v any \<Rightarrow> string"
  Sprint_Problem :: "'v Problem \<Rightarrow> string"
  URL_String :: "url \<Rightarrow> string"
  rangeKeys :: "(string \<rightharpoonup> 'v any) \<Rightarrow> string list"

text \<open>The entries a \<open>range\<close> over a map visits; a nil map has none.\<close>

definition range_entries :: "'v env \<Rightarrow> 'v headers \<Rightarrow> (string \<times> 'v any) list" where
  "range_entries env h =
     (case h of
        None \<Rightarrow> []
      | Some m \<Rightarrow> List.map_filter (\<lambda>k. map_option (Pair k) (m k)) (rangeKeys env m))"

text \<open>\<open>len(m) > 0\<close> for a map that may be nil.\<close>

definition nonempty_map :: "('k \<rightharpoonup> 'a) option \<Rightarrow> bool" where
  "nonempty_map m = (case m of None \<Rightarrow> False | Some f \<Rightarrow> f \<noteq> Map.empty)"

section \<open>Content negotiation\<close>

text \<open>
  The standard library's encoders, which the \<open>marshal\<close> table refers to, are parameters.
\<close>

record 'v encoders =
  json_Marshal :: "'v marshalFunc"
  xml_Marshal :: "'v marshalFunc"
  json_MarshalIndent :: "'v marshalled \<Rightarrow> string \<Rightarrow> string \<Rightarrow> goerror + bytes"
  xml_MarshalIndent :: "'v marshalled \<Rightarrow> string \<Rightarrow> string \<Rightarrow> goerror + bytes"

text \<open>\<open>marshal\<close> (marshalling.go): the supported content types and their marshalling functions.\<close>

definition marshal :: "'v encoders \<Rightarrow> string \<rightharpoonup> 'v marshalFunc" where
  "marshal enc =
     [''application/json'' \<mapsto> json_Marshal enc,
      ''application/xml'' \<mapsto> xml_Marshal enc,
      ''text/json'' \<mapsto> (\<lambda>v. json_MarshalIndent enc v [] ''  ''),
      ''text/xml'' \<mapsto> (\<lambda>v. xml_MarshalIndent enc v [] ''    '')]"

text \<open>\<open>http.Header.Get\<close>, for a key that is already in canonical form.\<close>

definition Header_Get :: "(string \<rightharpoonup> string list) \<Rightarrow> string \<Rightarrow> string" where
  "Header_Get h key = (case h key of Some (v # vs) \<Rightarrow> v | _ \<Rightarrow> [])"

text \<open>\<open>newRequest\<close>: the returned error is \<open>Inl\<close>, the new \<open>Request\<close> is \<open>Inr\<close>.\<close>

definition newRequest :: "'v encoders \<Rightarrow> http_Request \<Rightarrow> goerror + 'v Request" where
  "newRequest enc rq =
     (let acc = Header_Get (Header rq) ''Accept'';
          acc = (if acc = [] \<or> acc = ''*/*'' then ''application/json'' else acc)
      in case marshal enc acc of
           Some mc \<Rightarrow> Inr \<lparr>Request.Request = Some rq, Accept = acc, MarshalContent = mc\<rparr>
         | None \<Rightarrow> Inl ErrInvalidAcceptHeader)"

section \<open>Error\<close>

text \<open>
  \<open>NewError\<close>. The loop over the arguments carries \<open>errs\<close>, \<open>strs\<close>, \<open>rq\<close> and \<open>sc\<close>; a type
  switch has no default case, so an argument of any other type changes nothing.
  A panic is \<open>Inl\<close>.
\<close>

type_synonym NewError_vars = "goerror list \<times> string list \<times> http_Request option \<times> int option"

fun NewError_args :: "'v any list \<Rightarrow> NewError_vars \<Rightarrow> fault + NewError_vars" where
  "NewError_args [] vars = Inr vars"
| "NewError_args (arg # args) (errs, strs, rq, sc) =
     (case arg of
        AErr v \<Rightarrow> NewError_args args (errs @ [v], strs, rq, sc)
      | AInt v \<Rightarrow>
          if v < 400 \<or> v > 599
          then Inl (Panic (Errorf (errText ErrInvalidStatusCode @ '': '' @ show_int v
                                     @ '': valid range for error status is 4xx-5xx'')
                                  [ErrInvalidStatusCode]))
          else NewError_args args (errs, strs, rq, if sc = None then Some v else sc)
      | AStr v \<Rightarrow> NewError_args args (errs, strs @ [v], rq, sc)
      | ARequest v \<Rightarrow> NewError_args args (errs, strs, v, sc)
      | _ \<Rightarrow> NewError_args args (errs, strs, rq, sc))"

definition NewError :: "'v env \<Rightarrow> 'v any list \<Rightarrow> fault + 'v Error" where
  "NewError env args =
     (case NewError_args args ([], [], None, None) of
        Inl f \<Rightarrow> Inl f
      | Inr (errs, strs, rq, sc) \<Rightarrow>
          Inr \<lparr>err = (case errs of [] \<Rightarrow> None | [e] \<Rightarrow> Some e | _ \<Rightarrow> Some (Join errs)),
               help' = None,
               message = (if length strs > 0 then Some (strings_Join strs '' '') else None),
               request = rq,
               Error.statusCode = coalesce 0 [ifNotNil 0 sc, 500],
               timeStamp = nowUTC env,
               properties = None,
               Error.headers = None\<rparr>)"

text \<open>The fixed-status factories prepend their status code to the arguments.\<close>

definition BadRequest :: "'v env \<Rightarrow> 'v any list \<Rightarrow> fault + 'v Error" where
  "BadRequest env args = NewError env (AInt 400 # args)"

definition Forbidden :: "'v env \<Rightarrow> 'v any list \<Rightarrow> fault + 'v Error" where
  "Forbidden env args = NewError env (AInt 403 # args)"

definition InternalServerError :: "'v env \<Rightarrow> 'v any list \<Rightarrow> fault + 'v Error" where
  "InternalServerError env args = NewError env (AInt 500 # args)"

definition NotFound :: "'v env \<Rightarrow> 'v any list \<Rightarrow> fault + 'v Error" where
  "NotFound env args = NewError env (AInt 404 # args)"

definition Unauthorized :: "'v env \<Rightarrow> 'v any list \<Rightarrow> fault + 'v Error" where
  "Unauthorized env args = NewError env (AInt 401 # args)"

text \<open>\<open>Error.info\<close>.\<close>

definition info :: "'v Error \<Rightarrow> 'v ErrorInfo" where
  "info e =
     \<lparr>ErrorInfo.StatusCode = Error.statusCode e,
      ErrorInfo.Err = err e,
      ErrorInfo.Help = ifNotNil [] (help' e),
      ErrorInfo.Message = ifNotNil [] (message e),
      ErrorInfo.Request = request e,
      Properties = (if nonempty_map (properties e) then properties e else None),
      TimeStamp = timeStamp e\<rparr>"

text \<open>\<open>Error.Error\<close>: the string form of an \<open>Error\<close>.\<close>

definition Error_Error :: "'v Error \<Rightarrow> string" where
  "Error_Error e =
     (let code = Error.statusCode e; status = StatusText (Error.statusCode e)
      in case (err e, message e) of
           (Some w, Some m) \<Rightarrow> show_int code @ '' '' @ status @ '': '' @ errText w @ '': '' @ m
         | (Some w, None) \<Rightarrow> show_int code @ '' '' @ status @ '': '' @ errText w
         | (None, Some m) \<Rightarrow> show_int code @ '' '' @ status @ '': '' @ m
         | (None, None) \<Rightarrow> show_int code @ '' '' @ status)"

text \<open>
  The default \<open>ProjectError\<close> (projectError.go). It reads \<open>err.Request.URL\<close>, so a nil
  request or a nil URL is a nil dereference.
\<close>

definition default_ProjectError :: "'v ErrorInfo \<Rightarrow> fault + 'v marshalled" where
  "default_ProjectError ei =
     (case ErrorInfo.Request ei of
        None \<Rightarrow> Inl NilDereference
      | Some r \<Rightarrow>
         (case URL r of
            None \<Rightarrow> Inl NilDereference
          | Some u \<Rightarrow>
             (let pe = \<lparr>XMLName = ''error'',
                        errorResponse.Status = ErrorInfo.StatusCode ei,
                        Error = StatusText (ErrorInfo.StatusCode ei),
                        errorResponse.Message = ErrorInfo.Message ei,
                        errorResponse.Path = url.Path u,
                        Query = RawQuery u,
                        Timestamp = TimeStamp ei,
                        errorResponse.Help = ErrorInfo.Help ei,
                        Additional = None\<rparr>;
                  pe = (case ErrorInfo.Err ei of
                          None \<Rightarrow> pe
                        | Some w \<Rightarrow>
                            if errorResponse.Message pe = []
                            then pe\<lparr>errorResponse.Message := errText w\<rparr>
                            else pe\<lparr>errorResponse.Message :=
                                      errText w @ '': '' @ errorResponse.Message pe\<rparr>);
                  pe = (if nonempty_map (Properties ei)
                        then pe\<lparr>Additional := Properties ei\<rparr> else pe)
              in Inr (MErrorResponse pe))))"

text \<open>
  \<open>makeErrorResponse\<close>. The \<open>Request\<close> is taken to be non-nil, as the handler passes it.
  The result is a panic (\<open>Inl\<close>) or the calls made and the \<open>Response\<close>.
\<close>

definition makeErrorResponse ::
    "'v env \<Rightarrow> 'v Error \<Rightarrow> 'v Request \<Rightarrow> fault + ('v call list \<times> 'v Response)" where
  "makeErrorResponse env e rq =
     (if Error.statusCode e \<noteq> 0 \<and> (Error.statusCode e < 400 \<or> Error.statusCode e > 599)
      then Inl (Panic (Errorf (errText ErrInvalidStatusCode @ '': '' @ show_int (Error.statusCode e)
                                 @ '': valid range for error status is 4xx-5xx'')
                              [ErrInvalidStatusCode]))
      else
        let e = e\<lparr>Error.statusCode := coalesce 0 [Error.statusCode e, 500]\<rparr>;
            e = e\<lparr>timeStamp := coalesce 0 [timeStamp e, nowUTC env]\<rparr>;
            e = e\<lparr>request := Request.Request rq\<rparr>
        in case ProjectError env (info e) of
             Inl f \<Rightarrow> Inl f
           | Inr p \<Rightarrow>
              (case MarshalContent rq p of
                 Inl merr \<Rightarrow>
                   Inr ([ProjectErrorCall (info e), MarshalContentCall p,
                         LogErrorCall
                           \<lparr>InternalError.Err = Some merr,
                            InternalError.Help = ''the original error was: '' @ Error_Error e,
                            InternalError.Message = ''error marshalling error response'',
                            InternalError.Request = Request.Request rq,
                            InternalError.ContentType = []\<rparr>],
                        \<lparr>Response.StatusCode = 500,
                         Response.ContentType = ''plain/text'',
                         Content = strings_Join
                           [''An error occurred marshalling an error response'',
                            [],
                            ''The marshalling error was:'',
                            ''   '' @ errText merr,
                            [],
                            ''The original error was:'',
                            ''   '' @ Error_Error e] newline,
                         Response.headers = None\<rparr>)
               | Inr content' \<Rightarrow>
                   Inr ([ProjectErrorCall (info e), MarshalContentCall p],
                        \<lparr>Response.StatusCode = Error.statusCode e,
                         Response.ContentType = Accept rq,
                         Content = content',
                         Response.headers = None\<rparr>)))"

section \<open>Result\<close>

text \<open>\<open>Status\<close>: a panic is \<open>Inl\<close>.\<close>

definition Status :: "int \<Rightarrow> fault + 'v Result" where
  "Status code =
     (if code < 100 \<or> code > 599
      then Inl (Panic (Errorf (errText ErrInvalidStatusCode @ '': '' @ show_int code
                                 @ '': valid range is 1xx-5xx'') [ErrInvalidStatusCode]))
      else Inr \<lparr>content = ANil, contentType = None, Result.headers = None,
                Result.statusCode = code\<rparr>)"

text \<open>\<open>Result.WithContent\<close> (\<open>bytes.Clone\<close> copies the bytes) and \<open>Result.WithValue\<close>.\<close>

definition WithContent :: "string \<Rightarrow> bytes \<Rightarrow> 'v Result \<Rightarrow> 'v Result" where
  "WithContent ct bs r = r\<lparr>content := ABytes bs, contentType := Some ct\<rparr>"

definition WithValue :: "'v any \<Rightarrow> 'v Result \<Rightarrow> 'v Result" where
  "WithValue v r = r\<lparr>content := v, contentType := None\<rparr>"

text \<open>\<open>headers.String\<close> and \<open>Result.String\<close>, used for the diagnostic of a failed marshal.\<close>

definition headers_String :: "'v env \<Rightarrow> 'v headers \<Rightarrow> string" where
  "headers_String env h =
     (case h of
        None \<Rightarrow> ''<nil>''
      | Some m \<Rightarrow>
          ''{'' @ strings_Join (map (\<lambda>(k, v). k @ '':['' @ Sprint env v @ '']'')
                                   (range_entries env h)) '', '' @ ''}'')"

definition Result_String :: "'v env \<Rightarrow> 'v Result \<Rightarrow> string" where
  "Result_String env r =
     ''{statusCode:'' @ show_int (Result.statusCode r)
       @ '', contentType:'' @ ifNil (contentType r) ''<nil>''
       @ '', content:['' @ Sprint env (content r)
       @ ''], headers:'' @ headers_String env (Result.headers r) @ ''}''"

text \<open>
  \<open>makeResultResponse\<close>. The type assertion \<open>result.content.([]byte)\<close> panics when the
  content is not a byte slice.
\<close>

definition makeResultResponse ::
    "'v env \<Rightarrow> 'v Result \<Rightarrow> 'v Request \<Rightarrow> fault + ('v call list \<times> 'v Response)" where
  "makeResultResponse env result rq =
     (let response = \<lparr>Response.StatusCode = coalesce 0 [Result.statusCode result, 200],
                      Response.ContentType = [],
                      Content = [],
                      Response.headers = Result.headers result\<rparr>
      in if contentType result \<noteq> None \<and> content result \<noteq> ANil
         then (case content result of
                 ABytes b \<Rightarrow>
                   Inr ([], response\<lparr>Content := b,
                                      Response.ContentType := ifNil (contentType result) []\<rparr>)
               | _ \<Rightarrow> Inl TypeAssertionFailed)
         else if content result = ANil
         then Inr ([], response)
         else
           case MarshalContent rq (MAny (content result)) of
             Inl merr \<Rightarrow>
               (case InternalServerError env
                       [AErr (Errorf (errText ErrMarshalResultFailed @ '': '' @ errText merr)
                                     [ErrMarshalResultFailed, merr])] of
                  Inl f \<Rightarrow> Inl f
                | Inr e \<Rightarrow>
                   (case makeErrorResponse env e rq of
                      Inl f \<Rightarrow> Inl f
                    | Inr (calls, resp) \<Rightarrow>
                        Inr ([MarshalContentCall (MAny (content result)),
                              LogErrorCall
                                \<lparr>InternalError.Err = Some merr,
                                 InternalError.Help = ''Result:'' @ Result_String env result,
                                 InternalError.Message = ''error marshalling Result response'',
                                 InternalError.Request = Request.Request rq,
                                 InternalError.ContentType = []\<rparr>] @ calls,
                             resp)))
           | Inr content' \<Rightarrow>
               Inr ([MarshalContentCall (MAny (content result))],
                    response\<lparr>Response.ContentType := Accept rq, Content := content'\<rparr>))"

section \<open>Problem\<close>

text \<open>
  \<open>NewProblem\<close>. The loop over the arguments updates the \<open>Problem\<close>; copying through a nil
  \<open>*url.URL\<close> is a nil dereference, and an argument of an unsupported type panics with
  \<open>ErrInvalidArgument\<close>. The keys of one map are distinct, so the order in which the inner
  loop copies them does not show in the result.
\<close>

fun NewProblem_args :: "'v any list \<Rightarrow> 'v Problem \<Rightarrow> fault + 'v Problem" where
  "NewProblem_args [] p = Inr p"
| "NewProblem_args (arg # args) p =
     (case arg of
        AInt i \<Rightarrow> NewProblem_args args (p\<lparr>Problem.Status := i\<rparr>)
      | AURL u \<Rightarrow> NewProblem_args args (p\<lparr>Type := Some u\<rparr>)
      | AURLPtr ptr \<Rightarrow>
          (case ptr of
             None \<Rightarrow> Inl NilDereference
           | Some cp \<Rightarrow> NewProblem_args args (p\<lparr>Type := Some cp\<rparr>))
      | AStr s \<Rightarrow> NewProblem_args args (p\<lparr>Detail := s\<rparr>)
      | AErr w \<Rightarrow>
          NewProblem_args args
            (p\<lparr>Problem.Status := coalesce 0 [Problem.Status p, 500], Detail := errText w\<rparr>)
      | AMap m \<Rightarrow>
          NewProblem_args args
            (p\<lparr>props := Some ((case props p of None \<Rightarrow> Map.empty | Some pm \<Rightarrow> pm) ++ m)\<rparr>)
      | _ \<Rightarrow> Inl (Panic ErrInvalidArgument))"

definition NewProblem :: "'v any list \<Rightarrow> fault + 'v Problem" where
  "NewProblem args =
     (case NewProblem_args args
             \<lparr>Type = None, Problem.Status = 0, Instance = None, Detail = [], Title = [],
              props = None\<rparr> of
        Inl f \<Rightarrow> Inl f
      | Inr p \<Rightarrow>
          (let p = p\<lparr>Problem.Status := coalesce 0 [Problem.Status p, 500]\<rparr>;
               p = p\<lparr>Detail := coalesce [] [Detail p, StatusText (Problem.Status p)]\<rparr>
           in Inr p))"


section \<open>Dispatch on the returned value\<close>



section \<open>Writing a Response\<close>

text \<open>A call on the outside is appended to the calls made so far.\<close>

definition call :: "'v call \<Rightarrow> 'v call list \<Rightarrow> 'v call list" where
  "call c made = made @ [c]"

text \<open>
  \<open>Response.write\<close>. \<open>responseWriterWrite\<close> stands for the transport: the error, if any,
  that writing the given bytes returns. The function returns nothing to its caller; the
  model returns the calls made.
\<close>

definition Response_write ::
    "'v env \<Rightarrow> (bytes \<Rightarrow> goerror option) \<Rightarrow> 'v Response \<Rightarrow> http_Request option \<Rightarrow>
     'v call list \<Rightarrow> 'v call list" where
  "Response_write env responseWriterWrite r rq made =
     (let made = call (HeaderAddCall ''Content-Type'' (Response.ContentType r)) made;
          made = foldl (\<lambda>made (k, v). call (HeaderAssignCall k [Sprint env v]) made) made
                   (range_entries env (Response.headers r));
          made = call (WriteHeaderCall (Response.StatusCode r)) made;
          made = call (WriteCall (Content r)) made
      in case responseWriterWrite (Content r) of
           None \<Rightarrow> made
         | Some werr \<Rightarrow>
             call (LogErrorCall
                     \<lparr>InternalError.Err = Some werr,
                      InternalError.Help =
                        ''(response: '' @ show_int (Response.StatusCode r) @ '' ''
                          @ StatusText (Response.StatusCode r) @ ''): rw.Write() error: ''
                          @ errText werr,
                      InternalError.Message = ''error writing response'',
                      InternalError.Request = rq,
                      InternalError.ContentType = []\<rparr>) made)"

section \<open>Observing the calls\<close>

text \<open>The values handed to the marshalling function among the calls made, in order.\<close>

definition marshalled_of :: "'v call list \<Rightarrow> 'v marshalled list" where
  "marshalled_of calls =
     concat (map (\<lambda>c. case c of MarshalContentCall v \<Rightarrow> [v] | _ \<Rightarrow> []) calls)"

section \<open>The argument types the constructors handle\<close>

text \<open>
  The dynamic types that the type switch of \<open>NewError\<close> has a case for (\<open>error\<close>, \<open>int\<close>,
  \<open>string\<close>, \<open>*http.Request\<close>), and those that the type switch of \<open>NewProblem\<close> has a case
  for (\<open>int\<close>, \<open>url.URL\<close>, \<open>*url.URL\<close>, \<open>string\<close>, \<open>error\<close>, \<open>map[string]any\<close>).
\<close>

fun NewError_supported :: "'v any \<Rightarrow> bool" where
  "NewError_supported (AErr w) = True"
| "NewError_supported (AInt i) = True"
| "NewError_supported (AStr s) = True"
| "NewError_supported (ARequest r) = True"
| "NewError_supported a = False"

fun NewProblem_supported :: "'v any \<Rightarrow> bool" where
  "NewProblem_supported (AInt i) = True"
| "NewProblem_supported (AURL u) = True"
| "NewProblem_supported (AURLPtr p) = True"
| "NewProblem_supported (AStr s) = True"
| "NewProblem_supported (AErr w) = True"
| "NewProblem_supported (AMap m) = True"
| "NewProblem_supported a = False"

section \<open>Concrete inputs\<close>

definition example_url :: url where
  "example_url = \<lparr>Scheme = [], Host = [], url.Path = ''/path'', RawQuery = []\<rparr>"

definition example_http_Request :: http_Request where
  "example_http_Request = \<lparr>Header = Map.empty, URL = Some example_url\<rparr>"

definition other_http_Request :: http_Request where
  "other_http_Request =
     \<lparr>Header = Map.empty, URL = Some (example_url\<lparr>url.Path := ''/other''\<rparr>)\<rparr>"

definition example_env :: "unit env" where
  "example_env =
     \<lparr>nowUTC = 1, ProjectError = default_ProjectError, Sprint = (\<lambda>v. case v of AStr s \<Rightarrow> s | AInt i \<Rightarrow> show_int i | _ \<Rightarrow> ''?''),
      Sprint_Problem = (\<lambda>p. ''p''), URL_String = url.Path,
      rangeKeys = (\<lambda>m. filter (\<lambda>k. m k \<noteq> None) [''X-A'', ''X-B''])\<rparr>"

definition example_encoders :: "unit encoders" where
  "example_encoders =
     \<lparr>json_Marshal = (\<lambda>v. Inr ''j''), xml_Marshal = (\<lambda>v. Inr ''x''),
      json_MarshalIndent = (\<lambda>v p i. Inr ''ji''), xml_MarshalIndent = (\<lambda>v p i. Inr ''xi'')\<rparr>"

definition accept_Request :: "string \<Rightarrow> http_Request" where
  "accept_Request a = \<lparr>Header = [''Accept'' \<mapsto> [a]], URL = Some example_url\<rparr>"

definition failing_Request :: "unit Request" where
  "failing_Request =
     \<lparr>Request.Request = Some example_http_Request, Accept = ''application/json'',
      MarshalContent = (\<lambda>v. Inl (ErrorsNew ''marshalling error''))\<rparr>"

definition example_Error :: "unit Error" where
  "example_Error =
     \<lparr>err = None, help' = None, message = Some ''message'', request = Some other_http_Request,
      Error.statusCode = 404, timeStamp = 0, properties = None, Error.headers = None\<rparr>"

definition example_projection :: "unit marshalled" where
  "example_projection =
     MErrorResponse
       \<lparr>XMLName = ''error'', errorResponse.Status = 404, Error = ''Not Found'',
        errorResponse.Message = ''message'', errorResponse.Path = ''/path'', Query = [],
        Timestamp = 1, errorResponse.Help = [], Additional = None\<rparr>"

definition value_Result :: "unit Result" where
  "value_Result =
     \<lparr>content = AStr ''not used'', contentType = None, Result.headers = None,
      Result.statusCode = 201\<rparr>"

definition picky_Request :: "unit Request" where
  "picky_Request =
     \<lparr>Request.Request = Some example_http_Request, Accept = ''application/json'',
      MarshalContent =
        (\<lambda>v. case v of
               MAny a \<Rightarrow> Inl (ErrorsNew ''json.Marshal error'')
             | MErrorResponse er \<Rightarrow> Inr (''{message:'' @ errorResponse.Message er @ ''}''))\<rparr>"

definition marshal_failure_projection :: "unit marshalled" where
  "marshal_failure_projection =
     MErrorResponse
       \<lparr>XMLName = ''error'', errorResponse.Status = 500, Error = ''Internal Server Error'',
        errorResponse.Message = ''error marshalling response: json.Marshal error'',
        errorResponse.Path = ''/path'', Query = [],
        Timestamp = 1, errorResponse.Help = [], Additional = None\<rparr>"

definition bare_Error :: "unit Error" where
  "bare_Error =
     \<lparr>err = None, help' = None, message = None, request = None,
      Error.statusCode = 404, timeStamp = 0, properties = None, Error.headers = None\<rparr>"


definition headers_Response :: "unit Response" where
  "headers_Response =
     \<lparr>Response.StatusCode = 201, Response.ContentType = ''application/json'',
      Content = ''body'',
      Response.headers = Some [''X-A'' \<mapsto> AStr ''1'', ''X-B'' \<mapsto> AInt 2]\<rparr>"

definition broken_transport :: "bytes \<Rightarrow> goerror option" where
  "broken_transport b = Some (ErrorsNew ''broken pipe'')"

section \<open>Auxiliary facts\<close>

lemma StatusText_404: "StatusText 404 = ''Not Found''"
  by (simp add: StatusText_def statusTexts_def)

lemma StatusText_500: "StatusText 500 = ''Internal Server Error''"
  by (simp add: StatusText_def statusTexts_def)

lemma show_int_404: "show_int 404 = ''404''"
  by (simp add: show_int_def digit_def)

lemma show_int_500: "show_int 500 = ''500''"
  by (simp add: show_int_def digit_def)

lemma errors_Is_refl: "errors_Is e e"
  by (cases e) simp_all

lemma sublist_trans: "sublist a b \<Longrightarrow> sublist b c \<Longrightarrow> sublist a c"
  by (rule sublist_order.order_trans)

lemma sublist_strings_Join: "x \<in> set xs \<Longrightarrow> sublist x (strings_Join xs sep)"
proof (induction xs sep rule: strings_Join.induct)
  case (1 sep)
  then show ?case by simp
next
  case (2 s sep)
  then show ?case by simp
next
  case (3 s t ss sep)
  show ?case
  proof (cases "x = s")
    case True
    then show ?thesis by simp
  next
    case False
    with 3 have "sublist x (strings_Join (t # ss) sep)" by simp
    moreover have "sublist (strings_Join (t # ss) sep) (strings_Join (s # t # ss) sep)"
      using sublist_append_leftI[of "strings_Join (t # ss) sep" "s @ sep"] by simp
    ultimately show ?thesis by (rule sublist_trans)
  qed
qed

lemma sublist_line: "sublist x (strings_Join xs sep)" if "(pre @ x) \<in> set xs"
  using sublist_trans[OF sublist_append_leftI[of x pre] sublist_strings_Join[OF that]] .

lemma example_info:
  "ProjectError example_env
     (info (example_Error\<lparr>Error.statusCode := coalesce 0 [Error.statusCode example_Error, 500],
                           timeStamp := coalesce 0 [timeStamp example_Error, nowUTC example_env],
                           request := Request.Request failing_Request\<rparr>)) = Inr example_projection"
  by (simp add: example_env_def example_Error_def failing_Request_def info_def
        default_ProjectError_def example_http_Request_def example_url_def ifNotNil_def
        nonempty_map_def StatusText_404 example_projection_def)

lemma InternalServerError_wrap:
  "InternalServerError env [AErr w] =
     Inr \<lparr>err = Some w, help' = None, message = None, request = None,
          Error.statusCode = 500, timeStamp = nowUTC env, properties = None,
          Error.headers = None\<rparr>"
  by (simp add: InternalServerError_def NewError_def ifNotNil_def)

lemma makeErrorResponse_marshal_Inl:
  fixes env :: "'v env" and e :: "'v Error" and rq :: "'v Request"
  defines "e' \<equiv> e\<lparr>Error.statusCode := coalesce 0 [Error.statusCode e, 500],
                    timeStamp := coalesce 0 [timeStamp e, nowUTC env],
                    request := Request.Request rq\<rparr>"
  assumes valid: "Error.statusCode e = 0 \<or> (400 \<le> Error.statusCode e \<and> Error.statusCode e \<le> 599)"
      and proj: "ProjectError env (info e') = Inr p"
      and fail: "MarshalContent rq p = Inl merr"
  shows "makeErrorResponse env e rq =
        Inr ([ProjectErrorCall (info e'), MarshalContentCall p,
              LogErrorCall
                \<lparr>InternalError.Err = Some merr,
                 InternalError.Help = ''the original error was: '' @ Error_Error e',
                 InternalError.Message = ''error marshalling error response'',
                 InternalError.Request = Request.Request rq,
                 InternalError.ContentType = []\<rparr>],
             \<lparr>Response.StatusCode = 500, Response.ContentType = ''plain/text'',
              Content = strings_Join
                 [''An error occurred marshalling an error response'',
                  [],
                  ''The marshalling error was:'',
                  ''   '' @ errText merr,
                  [],
                  ''The original error was:'',
                  ''   '' @ Error_Error e'] newline, Response.headers = None\<rparr>)"
proof -
  have guard: "\<not> (Error.statusCode e \<noteq> 0 \<and> (Error.statusCode e < 400 \<or> Error.statusCode e > 599))"
    using valid by auto
  show ?thesis
    using guard proj fail unfolding makeErrorResponse_def e'_def
    by (simp add: Let_def del: coalesce.simps strings_Join.simps)
qed

lemma makeErrorResponse_marshal_Inr:
  fixes env :: "'v env" and e :: "'v Error" and rq :: "'v Request"
  defines "e' \<equiv> e\<lparr>Error.statusCode := coalesce 0 [Error.statusCode e, 500],
                    timeStamp := coalesce 0 [timeStamp e, nowUTC env],
                    request := Request.Request rq\<rparr>"
  assumes valid: "Error.statusCode e = 0 \<or> (400 \<le> Error.statusCode e \<and> Error.statusCode e \<le> 599)"
      and proj: "ProjectError env (info e') = Inr p"
      and ok: "MarshalContent rq p = Inr body"
  shows "makeErrorResponse env e rq =
        Inr ([ProjectErrorCall (info e'), MarshalContentCall p],
             \<lparr>Response.StatusCode = Error.statusCode e', Response.ContentType = Accept rq,
              Content = body, Response.headers = None\<rparr>)"
proof -
  have guard: "\<not> (Error.statusCode e \<noteq> 0 \<and> (Error.statusCode e < 400 \<or> Error.statusCode e > 599))"
    using valid by auto
  show ?thesis
    using guard proj ok unfolding makeErrorResponse_def e'_def
    by (simp add: Let_def del: coalesce.simps)
qed




lemma foldl_call:
  "foldl (\<lambda>made (k, v). call (f k v) made) made xs = made @ map (\<lambda>(k, v). f k v) xs"
  by (induction xs arbitrary: made) (auto simp: call_def)

lemma set_range_entries:
  "set (range_entries env (Some m)) = {(k, v). k \<in> set (rangeKeys env m) \<and> m k = Some v}"
proof -
  have "set (List.map_filter (\<lambda>k. map_option (Pair k) (m k)) ks) =
          {(k, v). k \<in> set ks \<and> m k = Some v}" for ks
    by (induction ks) (auto split: option.splits)
  then show ?thesis by (simp add: range_entries_def)
qed

lemma map_fst_range_entries:
  "map fst (range_entries env (Some m)) = filter (\<lambda>k. m k \<noteq> None) (rangeKeys env m)"
proof -
  have "map fst (List.map_filter (\<lambda>k. map_option (Pair k) (m k)) ks) =
          filter (\<lambda>k. m k \<noteq> None) ks" for ks
    by (induction ks) (auto split: option.splits)
  then show ?thesis by (simp add: range_entries_def)
qed

lemma StatusText_201: "StatusText 201 = ''Created''"
  by (simp add: StatusText_def statusTexts_def)

lemma show_int_201: "show_int 201 = ''201''"
  by (simp add: show_int_def digit_def)

lemma show_int_2: "show_int 2 = ''2''"
  by (simp add: show_int_def digit_def)

lemma headers_Response_entries:
  "range_entries example_env (Response.headers headers_Response) =
     [(''X-A'', AStr ''1''), (''X-B'', AInt 2)]"
  by (simp add: range_entries_def headers_Response_def example_env_def)

lemma NewError_args_filter:
  "NewError_args (filter NewError_supported args) (errs, strs, rq, sc) =
   NewError_args args (errs, strs, rq, sc)"
proof (induction args arbitrary: errs strs rq sc)
  case Nil
  then show ?case by simp
next
  case (Cons a args)
  then show ?case by (cases a) simp_all
qed

lemma NewError_filter: "NewError env (filter NewError_supported args) = NewError env args"
  by (simp add: NewError_def NewError_args_filter)

lemma NewError_args_Inl:
  "NewError_args args (errs, strs, rq, sc) = Inl f \<Longrightarrow>
     \<exists>i. AInt i \<in> set args \<and> (i < 400 \<or> 599 < i) \<and>
         f = Panic (Errorf (errText ErrInvalidStatusCode @ '': '' @ show_int i
                               @ '': valid range for error status is 4xx-5xx'')
                            [ErrInvalidStatusCode])"
proof (induction args arbitrary: errs strs rq sc)
  case Nil
  then show ?case by simp
next
  case (Cons a args)
  show ?case
  proof (cases a)
    case (AInt v)
    show ?thesis
    proof (cases "v < 400 \<or> 599 < v")
      case True
      with AInt Cons.prems show ?thesis by auto
    next
      case False
      with AInt Cons.prems
      have "NewError_args args (errs, strs, rq, if sc = None then Some v else sc) = Inl f"
        by simp
      from Cons.IH[OF this] show ?thesis by auto
    qed
  qed (use Cons in auto)
qed

lemma NewError_args_Inr:
  "\<forall>i. AInt i \<in> set args \<longrightarrow> 400 \<le> i \<and> i \<le> 599 \<Longrightarrow>
     \<exists>st. NewError_args args (errs, strs, rq, sc) = Inr st"
proof (induction args arbitrary: errs strs rq sc)
  case Nil
  then show ?case by simp
next
  case (Cons a args)
  then show ?case by (cases a) (auto split: if_splits)
qed

lemma NewProblem_args_unsupported:
  "\<not> NewProblem_supported x \<Longrightarrow>
   \<forall>a \<in> set pre. NewProblem_supported a \<and> a \<noteq> AURLPtr None \<Longrightarrow>
   NewProblem_args (pre @ x # post) p = Inl (Panic ErrInvalidArgument)"
proof (induction pre arbitrary: p)
  case Nil
  then show ?case by (cases x) simp_all
next
  case (Cons a pre)
  then show ?case by (cases a) (auto split: option.splits)
qed

section \<open>Double failure in makeErrorResponse\<close>

text \<open>
  C1. Take an \<open>Error\<close> whose status code is unset or in 400..599, so that \<open>makeErrorResponse\<close>
  reaches the projection, and let marshalling the projection fail with \<open>merr\<close>. Then
  \<open>makeErrorResponse\<close> returns a \<open>Response\<close> (no panic) with status 500 whatever the status
  of the \<open>Error\<close>, content type \<open>plain/text\<close>, and the fixed body, which contains the text of
  \<open>merr\<close> and the string form of the \<open>Error\<close> (with its defaults applied). The marshalling
  function is called once, on the projection, and the failure is reported to \<open>LogError\<close>.
\<close>

theorem makeErrorResponse_double_failure:
  fixes env :: "'v env" and e :: "'v Error" and rq :: "'v Request"
  defines "e' \<equiv> e\<lparr>Error.statusCode := coalesce 0 [Error.statusCode e, 500],
                    timeStamp := coalesce 0 [timeStamp e, nowUTC env],
                    request := Request.Request rq\<rparr>"
  assumes valid: "Error.statusCode e = 0 \<or> (400 \<le> Error.statusCode e \<and> Error.statusCode e \<le> 599)"
      and proj: "ProjectError env (info e') = Inr p"
      and fail: "MarshalContent rq p = Inl merr"
  shows "\<exists>calls resp.
           makeErrorResponse env e rq = Inr (calls, resp) \<and>
           Response.StatusCode resp = 500 \<and>
           Response.ContentType resp = ''plain/text'' \<and>
           Content resp = strings_Join
                           [''An error occurred marshalling an error response'',
                            [],
                            ''The marshalling error was:'',
                            ''   '' @ errText merr,
                            [],
                            ''The original error was:'',
                            ''   '' @ Error_Error e'] newline \<and>
           sublist (errText merr) (Content resp) \<and>
           sublist (Error_Error e') (Content resp) \<and>
           marshalled_of calls = [p] \<and>
           (\<exists>ie. LogErrorCall ie \<in> set calls \<and> InternalError.Err ie = Some merr)"
proof -
  let ?body = "strings_Join
                 [''An error occurred marshalling an error response'',
                  [],
                  ''The marshalling error was:'',
                  ''   '' @ errText merr,
                  [],
                  ''The original error was:'',
                  ''   '' @ Error_Error e'] newline"
  note run = makeErrorResponse_marshal_Inl[OF valid proj[unfolded e'_def] fail, folded e'_def]
  have s1: "sublist (errText merr) ?body"
    by (rule sublist_line[where pre = "''   ''"]) simp
  have s2: "sublist (Error_Error e') ?body"
    by (rule sublist_line[where pre = "''   ''"]) simp
  show ?thesis
    unfolding run using s1 s2 by (simp add: marshalled_of_def del: strings_Join.simps)
qed

theorem makeErrorResponse_double_failure_witness:
  "(Error.statusCode example_Error = 0 \<or>
      (400 \<le> Error.statusCode example_Error \<and> Error.statusCode example_Error \<le> 599)) \<and>
   MarshalContent failing_Request example_projection = Inl (ErrorsNew ''marshalling error'') \<and>
   (\<exists>calls resp.
      makeErrorResponse example_env example_Error failing_Request = Inr (calls, resp) \<and>
      Response.StatusCode resp = 500 \<and>
      Response.ContentType resp = ''plain/text'' \<and>
      Content resp = strings_Join
                       [''An error occurred marshalling an error response'',
                        [],
                        ''The marshalling error was:'',
                        ''   marshalling error'',
                        [],
                        ''The original error was:'',
                        ''   404 Not Found: message''] newline \<and>
      marshalled_of calls = [example_projection])"
proof -
  have h1: "Error.statusCode example_Error = 0 \<or>
      (400 \<le> Error.statusCode example_Error \<and> Error.statusCode example_Error \<le> 599)"
    by (simp add: example_Error_def)
  have h3: "MarshalContent failing_Request example_projection = Inl (ErrorsNew ''marshalling error'')"
    by (simp add: failing_Request_def)
  have str: "Error_Error
               (example_Error\<lparr>Error.statusCode := coalesce 0 [Error.statusCode example_Error, 500],
                              timeStamp := coalesce 0 [timeStamp example_Error, nowUTC example_env],
                              request := Request.Request failing_Request\<rparr>)
             = ''404 Not Found: message''"
    by (simp add: Error_Error_def example_Error_def StatusText_404 show_int_404)
  from makeErrorResponse_double_failure[OF h1 example_info h3]
  show ?thesis using h1 h3 unfolding str by (auto simp del: strings_Join.simps)
qed

section \<open>The range of Status\<close>

text \<open>
  C3, as the claim states it, fails: \<open>Status\<close> panics for a code below 100, such as 50,
  although 50 lies in 1..599.
\<close>

theorem Status_50_counterexample:
  "(Status 50 :: fault + unit Result) =
     Inl (Panic (Errorf ''invalid statuscode: 50: valid range is 1xx-5xx'' [ErrInvalidStatusCode]))"
  by (simp add: Status_def ErrInvalidStatusCode_def show_int_def digit_def)

text \<open>
  C3, amended. For every code in 100..599, \<open>Status\<close> returns a \<open>Result\<close> with that status
  code and nothing else set; for every code below 100 or above 599 it panics with an error
  that wraps \<open>ErrInvalidStatusCode\<close>.
\<close>

theorem Status_range:
  "(100 \<le> code \<and> code \<le> 599 \<longrightarrow>
      (Status code :: fault + 'v Result) =
        Inr \<lparr>content = ANil, contentType = None, Result.headers = None,
             Result.statusCode = code\<rparr>) \<and>
   (code < 100 \<or> 599 < code \<longrightarrow>
      (\<exists>w. (Status code :: fault + 'v Result) = Inl (Panic w) \<and>
           errors_Is w ErrInvalidStatusCode))"
  by (auto simp: Status_def errors_Is_refl)

theorem Status_range_witness:
  "(Status 100 :: fault + unit Result) =
     Inr \<lparr>content = ANil, contentType = None, Result.headers = None, Result.statusCode = 100\<rparr> \<and>
   (Status 599 :: fault + unit Result) =
     Inr \<lparr>content = ANil, contentType = None, Result.headers = None, Result.statusCode = 599\<rparr> \<and>
   (\<exists>w. (Status 99 :: fault + unit Result) = Inl (Panic w) \<and> errors_Is w ErrInvalidStatusCode) \<and>
   (\<exists>w. (Status 600 :: fault + unit Result) = Inl (Panic w) \<and> errors_Is w ErrInvalidStatusCode)"
  using Status_range[of 100, where 'v = unit] Status_range[of 599, where 'v = unit]
        Status_range[of 99, where 'v = unit] Status_range[of 600, where 'v = unit]
  by simp

section \<open>Content negotiation\<close>

text \<open>
  C4. Let \<open>a\<close> be the value of the request's Accept header (empty when absent). When \<open>a\<close> is
  empty or \<open>*/*\<close>, \<open>newRequest\<close> succeeds with content type \<open>application/json\<close> and the JSON
  marshaller. For any other \<open>a\<close>, \<open>newRequest\<close> succeeds exactly when \<open>a\<close> is one of
  \<open>application/json\<close>, \<open>application/xml\<close>, \<open>text/json\<close>, \<open>text/xml\<close>, with content type \<open>a\<close>;
  otherwise it returns \<open>ErrInvalidAcceptHeader\<close>.
\<close>

theorem newRequest_negotiation:
  fixes enc :: "'v encoders" and rq :: http_Request
  defines "a \<equiv> Header_Get (Header rq) ''Accept''"
  shows "(a = [] \<or> a = ''*/*'' \<longrightarrow>
            newRequest enc rq =
              Inr \<lparr>Request.Request = Some rq, Accept = ''application/json'',
                   MarshalContent = json_Marshal enc\<rparr>) \<and>
         (a \<noteq> [] \<and> a \<noteq> ''*/*'' \<longrightarrow>
            ((\<exists>r. newRequest enc rq = Inr r) \<longleftrightarrow>
               a \<in> {''application/json'', ''application/xml'', ''text/json'', ''text/xml''}) \<and>
            (\<forall>r. newRequest enc rq = Inr r \<longrightarrow> Accept r = a \<and> Request.Request r = Some rq) \<and>
            (a \<notin> {''application/json'', ''application/xml'', ''text/json'', ''text/xml''} \<longrightarrow>
               newRequest enc rq = Inl ErrInvalidAcceptHeader))"
  unfolding a_def
  by (auto simp: newRequest_def marshal_def Let_def split: option.splits if_splits)

theorem newRequest_negotiation_witness:
  "newRequest example_encoders example_http_Request =
     Inr \<lparr>Request.Request = Some example_http_Request, Accept = ''application/json'',
          MarshalContent = json_Marshal example_encoders\<rparr> \<and>
   newRequest example_encoders (accept_Request ''*/*'') =
     Inr \<lparr>Request.Request = Some (accept_Request ''*/*''), Accept = ''application/json'',
          MarshalContent = json_Marshal example_encoders\<rparr> \<and>
   (\<exists>r. newRequest example_encoders (accept_Request ''text/xml'') = Inr r \<and>
        Accept r = ''text/xml'') \<and>
   newRequest example_encoders (accept_Request ''text/plain'') = Inl ErrInvalidAcceptHeader"
proof -
  have a0: "Header_Get (Header example_http_Request) ''Accept'' = []"
    by (simp add: Header_Get_def example_http_Request_def)
  have a1: "Header_Get (Header (accept_Request a)) ''Accept'' = a" for a
    by (simp add: Header_Get_def accept_Request_def)
  have c1: "newRequest example_encoders example_http_Request =
     Inr \<lparr>Request.Request = Some example_http_Request, Accept = ''application/json'',
          MarshalContent = json_Marshal example_encoders\<rparr>"
    using newRequest_negotiation[of example_http_Request example_encoders]
    unfolding a0 by simp
  have c2: "newRequest example_encoders (accept_Request ''*/*'') =
     Inr \<lparr>Request.Request = Some (accept_Request ''*/*''), Accept = ''application/json'',
          MarshalContent = json_Marshal example_encoders\<rparr>"
    using newRequest_negotiation[of "accept_Request ''*/*''" example_encoders]
    unfolding a1 by simp
  have c3: "\<exists>r. newRequest example_encoders (accept_Request ''text/xml'') = Inr r \<and>
        Accept r = ''text/xml''"
    using newRequest_negotiation[of "accept_Request ''text/xml''" example_encoders]
    unfolding a1 by auto
  have c4: "newRequest example_encoders (accept_Request ''text/plain'') = Inl ErrInvalidAcceptHeader"
    using newRequest_negotiation[of "accept_Request ''text/plain''" example_encoders]
    unfolding a1 by simp
  show ?thesis
    using c1 c2 c3 c4 by blast
qed


section \<open>A Result whose value fails to marshal\<close>

text \<open>
  C2, as the claim states it, fails: when the marshalling function fails on the value of the
  \<open>Result\<close> and on the projection of the synthesized 500 \<open>Error\<close> as well, the \<open>Response\<close> has
  content type \<open>plain/text\<close>, not the negotiated \<open>application/json\<close>.
\<close>

theorem makeResultResponse_counterexample:
  "map_sum id snd (makeResultResponse example_env value_Result failing_Request) =
     Inr \<lparr>Response.StatusCode = 500,
          Response.ContentType = ''plain/text'',
          Content = strings_Join
                      [''An error occurred marshalling an error response'',
                       [],
                       ''The marshalling error was:'',
                       ''   marshalling error'',
                       [],
                       ''The original error was:'',
                       ''   500 Internal Server Error: error marshalling response: marshalling error'']
                      newline,
          Response.headers = None\<rparr> \<and>
   Accept failing_Request = ''application/json''"
  by (simp add: makeResultResponse_def value_Result_def failing_Request_def
        InternalServerError_wrap makeErrorResponse_def example_env_def info_def
        default_ProjectError_def example_http_Request_def example_url_def ifNotNil_def
        nonempty_map_def Error_Error_def StatusText_500 show_int_500
        ErrMarshalResultFailed_def Let_def)

text \<open>
  C2, amended. Take a \<open>Result\<close> with no explicit content type whose value fails to marshal
  with \<open>merr\<close>, and let the projection function return \<open>p\<close> for the synthesized 500 \<open>Error\<close>
  that wraps \<open>ErrMarshalResultFailed\<close> and \<open>merr\<close>. Then \<open>makeResultResponse\<close> returns a
  \<open>Response\<close> (no panic) with status 500. When \<open>p\<close> marshals, the \<open>Response\<close> has the
  negotiated content type and the marshalled \<open>p\<close> as body; when \<open>p\<close> fails to marshal too,
  it has content type \<open>plain/text\<close> and the fixed body, which contains both failure texts.
  The \<open>Response\<close> is the one \<open>makeErrorResponse\<close> gives for that \<open>Error\<close>, which is built
  from \<open>merr\<close> and the request alone, never from the value; the error handed to the
  projection reads \<open>error marshalling response: \<close> followed by the text of \<open>merr\<close>, and
  the default projection carries this text as its message.
\<close>

theorem makeResultResponse_marshal_failure:
  fixes env :: "'v env" and result :: "'v Result" and rq :: "'v Request" and merr :: goerror
  defines "w \<equiv> Errorf (errText ErrMarshalResultFailed @ '': '' @ errText merr)
                       [ErrMarshalResultFailed, merr]"
  defines "e \<equiv> \<lparr>err = Some w, help' = None, message = None, request = Request.Request rq,
                 Error.statusCode = 500, timeStamp = nowUTC env, properties = None,
                 Error.headers = None\<rparr>"
  assumes novalue: "contentType result = None"
      and nonnil: "content result \<noteq> ANil"
      and fail: "MarshalContent rq (MAny (content result)) = Inl merr"
      and proj: "ProjectError env (info e) = Inr p"
  shows "\<exists>calls resp.
           makeResultResponse env result rq = Inr (calls, resp) \<and>
           Response.StatusCode resp = 500 \<and>
           (case MarshalContent rq p of
              Inr body \<Rightarrow> Response.ContentType resp = Accept rq \<and> Content resp = body
            | Inl merr2 \<Rightarrow>
                Response.ContentType resp = ''plain/text'' \<and>
                sublist (errText merr2) (Content resp) \<and>
                sublist (errText merr) (Content resp)) \<and>
           marshalled_of calls = [MAny (content result), p] \<and>
           (\<exists>calls'. makeErrorResponse env e rq = Inr (calls', resp)) \<and>
           ErrorInfo.Err (info e) = Some w \<and>
           errText w = ''error marshalling response: '' @ errText merr \<and>
           (ProjectError env = default_ProjectError \<longrightarrow>
              (\<exists>er. p = MErrorResponse er \<and>
                    errorResponse.Message er = ''error marshalling response: '' @ errText merr))"
proof -
  define e0 :: "'v Error" where
    "e0 = \<lparr>err = Some w, help' = None, message = None, request = None,
            Error.statusCode = 500, timeStamp = nowUTC env, properties = None,
            Error.headers = None\<rparr>"
  have fin0: "e0\<lparr>Error.statusCode := coalesce 0 [Error.statusCode e0, 500],
                timeStamp := coalesce 0 [timeStamp e0, nowUTC env],
                request := Request.Request rq\<rparr> = e"
    by (simp add: e_def e0_def)
  have fin: "e\<lparr>Error.statusCode := coalesce 0 [Error.statusCode e, 500],
                timeStamp := coalesce 0 [timeStamp e, nowUTC env],
                request := Request.Request rq\<rparr> = e"
    by (simp add: e_def)
  have run: "makeResultResponse env result rq =
        (case makeErrorResponse env e0 rq of
           Inl f \<Rightarrow> Inl f
         | Inr (calls, resp) \<Rightarrow>
             Inr ([MarshalContentCall (MAny (content result)),
                   LogErrorCall
                     \<lparr>InternalError.Err = Some merr,
                      InternalError.Help = ''Result:'' @ Result_String env result,
                      InternalError.Message = ''error marshalling Result response'',
                      InternalError.Request = Request.Request rq,
                      InternalError.ContentType = []\<rparr>] @ calls,
                  resp))"
    using novalue nonnil fail
    by (simp add: makeResultResponse_def InternalServerError_wrap w_def e0_def Let_def)
  have wtext: "errText w = ''error marshalling response: '' @ errText merr"
    by (simp add: w_def ErrMarshalResultFailed_def)
  have "Error_Error e =
          (show_int 500 @ '' '' @ StatusText 500 @ '': '' @ ''error marshalling response: '')
            @ errText merr"
    by (simp add: Error_Error_def e_def wtext)
  then have str: "sublist (errText merr) (Error_Error e)"
    using sublist_append_leftI by metis
  have dflt: "\<exists>er. p = MErrorResponse er \<and>
                    errorResponse.Message er = ''error marshalling response: '' @ errText merr"
    if "ProjectError env = default_ProjectError"
    using proj unfolding that
    by (auto simp: default_ProjectError_def info_def e_def ifNotNil_def wtext Let_def
             split: option.splits if_splits)
  have valid: "Error.statusCode e = 0 \<or> (400 \<le> Error.statusCode e \<and> Error.statusCode e \<le> 599)"
    by (simp add: e_def)
  have valid0: "Error.statusCode e0 = 0 \<or> (400 \<le> Error.statusCode e0 \<and> Error.statusCode e0 \<le> 599)"
    by (simp add: e0_def)
  have proj': "ProjectError env (info (e\<lparr>Error.statusCode := coalesce 0 [Error.statusCode e, 500],
                timeStamp := coalesce 0 [timeStamp e, nowUTC env],
                request := Request.Request rq\<rparr>)) = Inr p"
    unfolding fin by (rule proj)
  have proj0: "ProjectError env (info (e0\<lparr>Error.statusCode := coalesce 0 [Error.statusCode e0, 500],
                timeStamp := coalesce 0 [timeStamp e0, nowUTC env],
                request := Request.Request rq\<rparr>)) = Inr p"
    unfolding fin0 by (rule proj)
  have e500: "Error.statusCode e = 500"
    by (simp add: e_def)
  have infoErr: "ErrorInfo.Err (info e) = Some w"
    by (simp add: info_def e_def)
  show ?thesis
  proof (cases "MarshalContent rq p")
    case (Inr body)
    have mk: "makeErrorResponse env e rq =
            Inr ([ProjectErrorCall (info e), MarshalContentCall p],
                 \<lparr>Response.StatusCode = 500, Response.ContentType = Accept rq,
                  Content = body, Response.headers = None\<rparr>)"
      using makeErrorResponse_marshal_Inr[OF valid proj' Inr, unfolded fin] e500 by simp
    have mk0: "makeErrorResponse env e0 rq =
            Inr ([ProjectErrorCall (info e), MarshalContentCall p],
                 \<lparr>Response.StatusCode = 500, Response.ContentType = Accept rq,
                  Content = body, Response.headers = None\<rparr>)"
      using makeErrorResponse_marshal_Inr[OF valid0 proj0 Inr, unfolded fin0] e500 by simp
    show ?thesis
      using Inr wtext dflt infoErr by (simp add: run mk mk0 marshalled_of_def)
  next
    case (Inl merr2)
    let ?body = "strings_Join
                 [''An error occurred marshalling an error response'',
                  [],
                  ''The marshalling error was:'',
                  ''   '' @ errText merr2,
                  [],
                  ''The original error was:'',
                  ''   '' @ Error_Error e] newline"
    let ?out = "Inr ([ProjectErrorCall (info e), MarshalContentCall p,
              LogErrorCall
                \<lparr>InternalError.Err = Some merr2,
                 InternalError.Help = ''the original error was: '' @ Error_Error e,
                 InternalError.Message = ''error marshalling error response'',
                 InternalError.Request = Request.Request rq,
                 InternalError.ContentType = []\<rparr>],
             \<lparr>Response.StatusCode = 500, Response.ContentType = ''plain/text'',
              Content = ?body, Response.headers = None\<rparr>)
             :: fault + ('v call list \<times> 'v Response)"
    have mk: "makeErrorResponse env e rq = ?out"
      using makeErrorResponse_marshal_Inl[OF valid proj' Inl, unfolded fin] .
    have mk0: "makeErrorResponse env e0 rq = ?out"
      using makeErrorResponse_marshal_Inl[OF valid0 proj0 Inl, unfolded fin0] .
    have s1: "sublist (errText merr2) ?body"
      by (rule sublist_line[where pre = "''   ''"]) simp
    have s2: "sublist (Error_Error e) ?body"
      by (rule sublist_line[where pre = "''   ''"]) simp
    have s3: "sublist (errText merr) ?body"
      by (rule sublist_trans[OF str s2])
    show ?thesis
      using Inl wtext dflt infoErr s1 s3
      by (simp add: run mk mk0 marshalled_of_def del: strings_Join.simps)
  qed
qed

theorem makeResultResponse_marshal_failure_witness:
  "contentType value_Result = None \<and>
   content value_Result \<noteq> ANil \<and>
   MarshalContent picky_Request (MAny (content value_Result)) = Inl (ErrorsNew ''json.Marshal error'') \<and>
   MarshalContent picky_Request marshal_failure_projection =
     Inr ''{message:error marshalling response: json.Marshal error}'' \<and>
   (\<exists>calls resp.
      makeResultResponse example_env value_Result picky_Request = Inr (calls, resp) \<and>
      Response.StatusCode resp = 500 \<and>
      Response.ContentType resp = ''application/json'' \<and>
      Content resp = ''{message:error marshalling response: json.Marshal error}'')"
proof -
  have h1: "contentType value_Result = None"
    by (simp add: value_Result_def)
  have h2: "content value_Result \<noteq> ANil"
    by (simp add: value_Result_def)
  have h3: "MarshalContent picky_Request (MAny (content value_Result)) =
              Inl (ErrorsNew ''json.Marshal error'')"
    by (simp add: picky_Request_def)
  have h4: "ProjectError example_env
              (info \<lparr>err = Some (Errorf (errText ErrMarshalResultFailed @ '': ''
                                           @ errText (ErrorsNew ''json.Marshal error''))
                                         [ErrMarshalResultFailed, ErrorsNew ''json.Marshal error'']),
                     help' = None, message = None, request = Request.Request picky_Request,
                     Error.statusCode = 500, timeStamp = nowUTC example_env, properties = None,
                     Error.headers = None\<rparr>) = Inr marshal_failure_projection"
    by (simp add: example_env_def picky_Request_def info_def default_ProjectError_def
          example_http_Request_def example_url_def ifNotNil_def nonempty_map_def
          StatusText_500 marshal_failure_projection_def ErrMarshalResultFailed_def)
  have h5: "MarshalContent picky_Request marshal_failure_projection =
     Inr ''{message:error marshalling response: json.Marshal error}''"
    by (simp add: picky_Request_def marshal_failure_projection_def)
  have acc: "Accept picky_Request = ''application/json''"
    by (simp add: picky_Request_def)
  from makeResultResponse_marshal_failure[OF h1 h2 h3 h4]
  obtain calls resp where
    "makeResultResponse example_env value_Result picky_Request = Inr (calls, resp)"
    "Response.StatusCode resp = 500"
    "(case MarshalContent picky_Request marshal_failure_projection of
              Inr body \<Rightarrow> Response.ContentType resp = Accept picky_Request \<and> Content resp = body
            | Inl merr2 \<Rightarrow>
                Response.ContentType resp = ''plain/text'' \<and>
                sublist (errText merr2) (Content resp) \<and>
                sublist (errText (ErrorsNew ''json.Marshal error'')) (Content resp))"
    by blast
  then show ?thesis
    using h1 h2 h3 h5 acc by auto
qed

section \<open>Explicit content bypasses negotiation\<close>

text \<open>
  C5. For every \<open>Result\<close>, content type \<open>ct\<close>, bytes \<open>bs\<close> and every \<open>Request\<close> (so
  every negotiated Accept value and marshaller), the \<open>Response\<close> made from the \<open>Result\<close> after
  \<open>WithContent ct bs\<close> carries exactly \<open>ct\<close> and exactly \<open>bs\<close>; the marshalling function is
  not called.
\<close>

theorem WithContent_bypasses_negotiation:
  "makeResultResponse env (WithContent ct bs r) rq =
     Inr ([], \<lparr>Response.StatusCode = coalesce 0 [Result.statusCode r, 200],
               Response.ContentType = ct,
               Content = bs,
               Response.headers = Result.headers r\<rparr>)"
  by (simp add: makeResultResponse_def WithContent_def ifNil_def Let_def)

theorem WithContent_bypasses_negotiation_witness:
  "makeResultResponse example_env (WithContent ''plain/text'' ''example'' value_Result) failing_Request =
     Inr ([], \<lparr>Response.StatusCode = 201, Response.ContentType = ''plain/text'',
               Content = ''example'', Response.headers = None\<rparr>) \<and>
   makeResultResponse example_env (WithContent ''plain/text'' ''example'' value_Result) picky_Request =
     Inr ([], \<lparr>Response.StatusCode = 201, Response.ContentType = ''plain/text'',
               Content = ''example'', Response.headers = None\<rparr>)"
  using WithContent_bypasses_negotiation[of example_env "''plain/text''" "''example''" value_Result failing_Request]
        WithContent_bypasses_negotiation[of example_env "''plain/text''" "''example''" value_Result picky_Request]
  by (simp add: value_Result_def)

section \<open>The string form of an Error\<close>

text \<open>
  C6. The string form of an \<open>Error\<close> is its status code, a space and the status text,
  followed by \<open>: \<close> and the wrapped error when there is one, followed by \<open>: \<close> and the
  message when there is one. With status 404 and neither, it is \<open>404 Not Found\<close>; with
  status 404, wrapped error \<open>E\<close> and message \<open>M\<close>, it is \<open>404 Not Found: E: M\<close>.
\<close>

theorem Error_string_form:
  "Error_Error e =
     show_int (Error.statusCode e) @ '' '' @ StatusText (Error.statusCode e)
       @ (case err e of None \<Rightarrow> [] | Some w \<Rightarrow> '': '' @ errText w)
       @ (case message e of None \<Rightarrow> [] | Some m \<Rightarrow> '': '' @ m) \<and>
   (Error.statusCode e = 404 \<and> err e = None \<and> message e = None \<longrightarrow>
      Error_Error e = ''404 Not Found'') \<and>
   (Error.statusCode e = 404 \<and> err e = Some E \<and> message e = Some M \<longrightarrow>
      Error_Error e = ''404 Not Found: '' @ errText E @ '': '' @ M)"
  by (auto simp: Error_Error_def Let_def StatusText_404 show_int_404 split: option.splits)

theorem Error_string_form_witness:
  "Error_Error bare_Error = ''404 Not Found'' \<and>
   Error_Error (bare_Error\<lparr>err := Some (ErrorsNew ''error''), message := Some ''message''\<rparr>) =
     ''404 Not Found: error: message'' \<and>
   Error_Error (bare_Error\<lparr>err := Some (ErrorsNew ''error'')\<rparr>) = ''404 Not Found: error'' \<and>
   Error_Error (bare_Error\<lparr>message := Some ''message''\<rparr>) = ''404 Not Found: message''"
  using Error_string_form[of bare_Error]
        Error_string_form[of "bare_Error\<lparr>err := Some (ErrorsNew ''error''), message := Some ''message''\<rparr>"
                             "ErrorsNew ''error''" "''message''"]
        Error_string_form[of "bare_Error\<lparr>err := Some (ErrorsNew ''error'')\<rparr>"]
        Error_string_form[of "bare_Error\<lparr>message := Some ''message''\<rparr>"]
  by (simp add: bare_Error_def StatusText_404 show_int_404)

section \<open>NewProblem\<close>

text \<open>
  C7. The code at two inputs. In \<open>NewProblem("resource not found", errors.New("some error"))\<close>
  the error argument replaces the detail that the earlier string argument set; in the
  example of the function's own documentation,
  \<open>NewProblem(400, errors.New("some error"), errors.New("another error"))\<close>, the second
  error replaces the detail set by the first. The status set earlier is kept.
\<close>

theorem NewProblem_error_overwrites_detail:
  "(NewProblem [AStr ''resource not found'', AErr (ErrorsNew ''some error'')]
      :: fault + unit Problem) =
     Inr \<lparr>Type = None, Problem.Status = 500, Instance = None, Detail = ''some error'',
          Title = [], props = None\<rparr> \<and>
   (NewProblem [AInt 400, AErr (ErrorsNew ''some error''), AErr (ErrorsNew ''another error'')]
      :: fault + unit Problem) =
     Inr \<lparr>Type = None, Problem.Status = 400, Instance = None, Detail = ''another error'',
          Title = [], props = None\<rparr>"
  by (simp add: NewProblem_def)


section \<open>The request reference of an Error\<close>




section \<open>The order of writing a Response\<close>

text \<open>
  C9. Writing a \<open>Response\<close> adds, to the calls made so far, the Content-Type header first,
  then one header assignment per entry of the additional headers, its value rendered as a
  string, then the status code, then the body; when writing the body fails, one call of
  \<open>LogError\<close> with that failure follows, and otherwise nothing. The function returns
  nothing else, so the failure does not reach the caller. When the runtime visits each key
  of the header map once, the entries written are exactly the entries of the map.
\<close>

theorem Response_write_order:
  "Response_write env w r rq made =
     made @ [HeaderAddCall ''Content-Type'' (Response.ContentType r)]
          @ map (\<lambda>(k, v). HeaderAssignCall k [Sprint env v])
                (range_entries env (Response.headers r))
          @ [WriteHeaderCall (Response.StatusCode r), WriteCall (Content r)]
          @ (case w (Content r) of
               None \<Rightarrow> []
             | Some werr \<Rightarrow>
                 [LogErrorCall
                    \<lparr>InternalError.Err = Some werr,
                     InternalError.Help =
                       ''(response: '' @ show_int (Response.StatusCode r) @ '' ''
                         @ StatusText (Response.StatusCode r) @ ''): rw.Write() error: ''
                         @ errText werr,
                     InternalError.Message = ''error writing response'',
                     InternalError.Request = rq,
                     InternalError.ContentType = []\<rparr>]) \<and>
   (Response.headers r = Some m \<and> distinct (rangeKeys env m) \<and> set (rangeKeys env m) = dom m \<longrightarrow>
      set (range_entries env (Response.headers r)) = {(k, v). m k = Some v} \<and>
      distinct (map fst (range_entries env (Response.headers r))))"
proof -
  have shape: "Response_write env w r rq made =
     made @ [HeaderAddCall ''Content-Type'' (Response.ContentType r)]
          @ map (\<lambda>(k, v). HeaderAssignCall k [Sprint env v])
                (range_entries env (Response.headers r))
          @ [WriteHeaderCall (Response.StatusCode r), WriteCall (Content r)]
          @ (case w (Content r) of
               None \<Rightarrow> []
             | Some werr \<Rightarrow>
                 [LogErrorCall
                    \<lparr>InternalError.Err = Some werr,
                     InternalError.Help =
                       ''(response: '' @ show_int (Response.StatusCode r) @ '' ''
                         @ StatusText (Response.StatusCode r) @ ''): rw.Write() error: ''
                         @ errText werr,
                     InternalError.Message = ''error writing response'',
                     InternalError.Request = rq,
                     InternalError.ContentType = []\<rparr>])"
    unfolding Response_write_def Let_def foldl_call
    by (simp add: call_def split: option.splits)
  have all: "set (range_entries env (Response.headers r)) = {(k, v). m k = Some v} \<and>
      distinct (map fst (range_entries env (Response.headers r)))"
    if "Response.headers r = Some m" "distinct (rangeKeys env m)" "set (rangeKeys env m) = dom m"
    using that by (auto simp: set_range_entries map_fst_range_entries)
  show ?thesis
    using shape all by blast
qed

theorem Response_write_order_witness:
  "Response_write example_env broken_transport headers_Response (Some example_http_Request) [] =
     [HeaderAddCall ''Content-Type'' ''application/json'',
      HeaderAssignCall ''X-A'' [''1''],
      HeaderAssignCall ''X-B'' [''2''],
      WriteHeaderCall 201,
      WriteCall ''body'',
      LogErrorCall
        \<lparr>InternalError.Err = Some (ErrorsNew ''broken pipe''),
         InternalError.Help = ''(response: 201 Created): rw.Write() error: broken pipe'',
         InternalError.Message = ''error writing response'',
         InternalError.Request = Some example_http_Request,
         InternalError.ContentType = []\<rparr>] \<and>
   Response_write example_env (\<lambda>b. None) headers_Response (Some example_http_Request) [] =
     [HeaderAddCall ''Content-Type'' ''application/json'',
      HeaderAssignCall ''X-A'' [''1''],
      HeaderAssignCall ''X-B'' [''2''],
      WriteHeaderCall 201,
      WriteCall ''body''] \<and>
   distinct (rangeKeys example_env [''X-A'' \<mapsto> AStr ''1'', ''X-B'' \<mapsto> AInt 2]) \<and>
   set (rangeKeys example_env [''X-A'' \<mapsto> AStr ''1'', ''X-B'' \<mapsto> AInt 2]) =
     dom [''X-A'' \<mapsto> AStr ''1'', ''X-B'' \<mapsto> (AInt 2 :: unit any)] \<and>
   set (range_entries example_env (Response.headers headers_Response)) =
     {(k, v). [''X-A'' \<mapsto> AStr ''1'', ''X-B'' \<mapsto> AInt 2] k = Some v}"
proof -
  let ?m = "[''X-A'' \<mapsto> AStr ''1'', ''X-B'' \<mapsto> AInt 2] :: string \<rightharpoonup> unit any"
  have h1: "Response.headers headers_Response = Some ?m"
    by (simp add: headers_Response_def)
  have h2: "distinct (rangeKeys example_env ?m)"
    by (simp add: example_env_def)
  have h3: "set (rangeKeys example_env ?m) = dom ?m"
    by (auto simp: example_env_def)
  have sp: "Sprint example_env (AStr ''1'') = ''1''" "Sprint example_env (AInt 2) = ''2''"
    by (simp_all add: example_env_def show_int_2)
  have fields: "Response.ContentType headers_Response = ''application/json''"
    "Response.StatusCode headers_Response = 201" "Content headers_Response = ''body''"
    by (simp_all add: headers_Response_def)
  note th1 = Response_write_order[where env = example_env and w = broken_transport
      and r = headers_Response and rq = "Some example_http_Request" and made = "[]" and m = ?m]
  note th2 = Response_write_order[where env = example_env and w = "\<lambda>b. None"
      and r = headers_Response and rq = "Some example_http_Request" and made = "[]" and m = ?m]
  have a: "Response_write example_env broken_transport headers_Response (Some example_http_Request) [] =
     [HeaderAddCall ''Content-Type'' ''application/json'',
      HeaderAssignCall ''X-A'' [''1''],
      HeaderAssignCall ''X-B'' [''2''],
      WriteHeaderCall 201,
      WriteCall ''body'',
      LogErrorCall
        \<lparr>InternalError.Err = Some (ErrorsNew ''broken pipe''),
         InternalError.Help = ''(response: 201 Created): rw.Write() error: broken pipe'',
         InternalError.Message = ''error writing response'',
         InternalError.Request = Some example_http_Request,
         InternalError.ContentType = []\<rparr>]"
    using th1 by (simp add: headers_Response_entries sp fields broken_transport_def
                    StatusText_201 show_int_201)
  have b: "Response_write example_env (\<lambda>b. None) headers_Response (Some example_http_Request) [] =
     [HeaderAddCall ''Content-Type'' ''application/json'',
      HeaderAssignCall ''X-A'' [''1''],
      HeaderAssignCall ''X-B'' [''2''],
      WriteHeaderCall 201,
      WriteCall ''body'']"
    using th2 by (simp add: headers_Response_entries sp fields)
  have c: "set (range_entries example_env (Response.headers headers_Response)) =
     {(k, v). ?m k = Some v}"
    using th1 h1 h2 h3 by blast
  show ?thesis
    using a b c h2 h3 by blast
qed

section \<open>Arguments of unsupported type\<close>

text \<open>
  C10. \<open>NewError\<close> and the fixed-status factories give the same result with and without the
  arguments whose type is not \<open>int\<close>, \<open>string\<close>, \<open>error\<close> or \<open>*http.Request\<close>. \<open>NewError\<close>
  returns an \<open>Error\<close> whenever every \<open>int\<close> argument lies in 400..599, and when it panics,
  it panics with an error that wraps \<open>ErrInvalidStatusCode\<close>, never \<open>ErrInvalidArgument\<close>.
  \<open>NewProblem\<close> panics with \<open>ErrInvalidArgument\<close> at an argument of a type it has no case
  for, when the arguments before it are of supported types and none is a nil \<open>*url.URL\<close>.
\<close>

theorem NewError_ignores_unsupported:
  "NewError env args = NewError env (filter NewError_supported args) \<and>
   BadRequest env args = BadRequest env (filter NewError_supported args) \<and>
   Forbidden env args = Forbidden env (filter NewError_supported args) \<and>
   InternalServerError env args = InternalServerError env (filter NewError_supported args) \<and>
   NotFound env args = NotFound env (filter NewError_supported args) \<and>
   Unauthorized env args = Unauthorized env (filter NewError_supported args) \<and>
   ((\<forall>i. AInt i \<in> set args \<longrightarrow> 400 \<le> i \<and> i \<le> 599) \<longrightarrow>
      (\<exists>e. NewError env args = Inr e)) \<and>
   (NewError env args = Inl f \<longrightarrow>
      (\<exists>w. f = Panic w \<and> errors_Is w ErrInvalidStatusCode \<and>
           \<not> errors_Is w ErrInvalidArgument)) \<and>
   (\<not> NewProblem_supported x \<and>
    (\<forall>a \<in> set pre. NewProblem_supported a \<and> a \<noteq> AURLPtr None) \<longrightarrow>
      (NewProblem (pre @ x # post) :: fault + 'v Problem) = Inl (Panic ErrInvalidArgument))"
proof -
  have fac: "NewError env (AInt c # args) = NewError env (AInt c # filter NewError_supported args)" for c
    using NewError_filter[of env "AInt c # args"] by simp
  have ok: "\<exists>e. NewError env args = Inr e" if "\<forall>i. AInt i \<in> set args \<longrightarrow> 400 \<le> i \<and> i \<le> 599"
    using NewError_args_Inr[OF that, of "[]" "[]" None None]
    by (auto simp: NewError_def split: prod.splits)
  have bad: "\<exists>w. f = Panic w \<and> errors_Is w ErrInvalidStatusCode \<and> \<not> errors_Is w ErrInvalidArgument"
    if "NewError env args = Inl f"
  proof -
    from that have "NewError_args args ([], [], None, None) = Inl f"
      by (auto simp: NewError_def split: sum.splits prod.splits)
    from NewError_args_Inl[OF this] show ?thesis
      by (auto simp: errors_Is_refl ErrInvalidStatusCode_def ErrInvalidArgument_def)
  qed
  have prob: "(NewProblem (pre @ x # post) :: fault + 'v Problem) = Inl (Panic ErrInvalidArgument)"
    if "\<not> NewProblem_supported x" "\<forall>a \<in> set pre. NewProblem_supported a \<and> a \<noteq> AURLPtr None"
    using NewProblem_args_unsupported[OF that] by (simp add: NewProblem_def)
  show ?thesis
    using NewError_filter[of env args] fac ok bad prob
    unfolding BadRequest_def Forbidden_def InternalServerError_def NotFound_def Unauthorized_def
    by metis
qed

theorem NewError_ignores_unsupported_witness:
  "NewError example_env [ANil, AStr ''missing id'', AOther (), AErr (ErrorsNew ''boom'')] =
     Inr \<lparr>err = Some (ErrorsNew ''boom''), help' = None, message = Some ''missing id'',
          request = None, Error.statusCode = 500, timeStamp = 1, properties = None,
          Error.headers = None\<rparr> \<and>
   BadRequest example_env [ANil] =
     Inr \<lparr>err = None, help' = None, message = None, request = None,
          Error.statusCode = 400, timeStamp = 1, properties = None, Error.headers = None\<rparr> \<and>
   (\<exists>w. NewError example_env [AOther (), AInt 600] = Inl (Panic w) \<and>
        errors_Is w ErrInvalidStatusCode \<and> \<not> errors_Is w ErrInvalidArgument) \<and>
   (NewProblem ([AInt 404] @ AOther () # []) :: fault + unit Problem) =
     Inl (Panic ErrInvalidArgument)"
proof -
  note th1 = NewError_ignores_unsupported[where env = example_env
      and args = "[ANil, AStr ''missing id'', AOther (), AErr (ErrorsNew ''boom'')]"
      and f = NilDereference and x = "AOther ()" and pre = "[AInt 404]" and post = "[]"]
  note th2 = NewError_ignores_unsupported[where env = example_env and args = "[ANil]"
      and f = NilDereference and x = "AOther ()" and pre = "[AInt 404]" and post = "[]"]
  note th3 = NewError_ignores_unsupported[where env = example_env
      and args = "[AOther (), AInt 600]"
      and f = "Panic (Errorf (errText ErrInvalidStatusCode @ '': '' @ show_int 600
                               @ '': valid range for error status is 4xx-5xx'')
                            [ErrInvalidStatusCode])"
      and x = "AOther ()" and pre = "[AInt 404]" and post = "[]"]
  note th4 = NewError_ignores_unsupported[where x = "AOther ()" and pre = "[AInt 404]"
      and post = "[]" and env = example_env and args = "[]" and f = NilDereference]
  have a: "NewError example_env [ANil, AStr ''missing id'', AOther (), AErr (ErrorsNew ''boom'')] =
     Inr \<lparr>err = Some (ErrorsNew ''boom''), help' = None, message = Some ''missing id'',
          request = None, Error.statusCode = 500, timeStamp = 1, properties = None,
          Error.headers = None\<rparr>"
  proof -
    from th1 have "NewError example_env [ANil, AStr ''missing id'', AOther (), AErr (ErrorsNew ''boom'')] =
        NewError example_env [AStr ''missing id'', AErr (ErrorsNew ''boom'')]"
      by simp
    also have "\<dots> = Inr \<lparr>err = Some (ErrorsNew ''boom''), help' = None, message = Some ''missing id'',
          request = None, Error.statusCode = 500, timeStamp = 1, properties = None,
          Error.headers = None\<rparr>"
      by (simp add: NewError_def example_env_def ifNotNil_def)
    finally show ?thesis .
  qed
  have b: "BadRequest example_env [ANil] =
     Inr \<lparr>err = None, help' = None, message = None, request = None,
          Error.statusCode = 400, timeStamp = 1, properties = None, Error.headers = None\<rparr>"
  proof -
    from th2 have "BadRequest example_env [ANil] = BadRequest example_env []"
      by simp
    also have "\<dots> = Inr \<lparr>err = None, help' = None, message = None, request = None,
          Error.statusCode = 400, timeStamp = 1, properties = None, Error.headers = None\<rparr>"
      by (simp add: BadRequest_def NewError_def example_env_def ifNotNil_def)
    finally show ?thesis .
  qed
  have run: "NewError example_env [AOther (), AInt 600] =
      Inl (Panic (Errorf (errText ErrInvalidStatusCode @ '': '' @ show_int 600
                               @ '': valid range for error status is 4xx-5xx'')
                            [ErrInvalidStatusCode]))"
    by (simp add: NewError_def)
  from th3 run
  have c: "\<exists>w. NewError example_env [AOther (), AInt 600] = Inl (Panic w) \<and>
        errors_Is w ErrInvalidStatusCode \<and> \<not> errors_Is w ErrInvalidArgument"
    by (metis fault.inject(1))
  from th4 have d: "(NewProblem ([AInt 404] @ AOther () # []) :: fault + unit Problem) =
     Inl (Panic ErrInvalidArgument)"
    by simp
  show ?thesis
    using a b c d by blast
qed

end
